theory Spec2Isabelle
  imports Complex_Main
begin

section \<open>The map picker (MapPicker component)\<close>

text \<open>
  The component is a React function component. Its handlers read no state variable:
  they read the refs \<open>map.current\<close> and \<open>marker.current\<close>, the platform object
  \<open>navigator.geolocation\<close>, the imported constant \<open>MAP_DEFAULT_CENTER\<close> and their own
  parameters, and they write state through the setters. The state variables are read
  only when the view is rendered. A handler is therefore a function from the state
  before to the state after, the setters applied in the order of the source (the last
  write of a handler is the one the next render sees).

  Coordinates are JavaScript numbers. The component never computes with them, it only
  copies them, so they are modelled as reals.
\<close>

record Coordinates =
  lat :: real
  lng :: real

text \<open>\<open>position.coords\<close> of a \<open>GeolocationPosition\<close>.\<close>

record GeolocationCoordinates =
  latitude :: real
  longitude :: real

text \<open>
  What the component does to its collaborators, in the order it does it:
  \<open>alert(t('gpsFailed'))\<close>, \<open>onLocationSelect(c)\<close>,
  \<open>navigator.geolocation.getCurrentPosition(success, error, {enableHighAccuracy,
  timeout, maximumAge})\<close>, \<open>map.current.flyTo({center, zoom})\<close>,
  \<open>new mapboxgl.Marker(...).setLngLat(c).addTo(map.current)\<close> and
  \<open>marker.current.setLngLat(c)\<close>.
\<close>

datatype effect =
    Alert
  | OnLocationSelect Coordinates
  | GetCurrentPosition bool nat nat
  | FlyTo Coordinates nat
  | NewMarker Coordinates
  | SetLngLat Coordinates

text \<open>
  An outstanding \<open>getCurrentPosition\<close> call holds the two callbacks \<open>success\<close> and
  \<open>error\<close>, closures over the parameters \<open>showError\<close> and \<open>enableHighAccuracy\<close> of
  the \<open>handleGeolocation\<close> call that issued it. Nothing else identifies a call.
\<close>

record attempt =
  cl_showError :: bool
  cl_enableHighAccuracy :: bool

text \<open>
  The platform and the imported constants: whether \<open>navigator.geolocation\<close> is
  present, whether \<open>mapboxgl.supported()\<close> holds, whether \<open>new mapboxgl.Map\<close> throws,
  and \<open>MAP_DEFAULT_CENTER\<close> (imported from \<open>../constants\<close>, which is not among the
  sources: a parameter here).
\<close>

record env =
  geolocation :: bool
  supported :: bool
  mapCtorThrows :: bool
  MAP_DEFAULT_CENTER :: Coordinates

text \<open>
  The component's state: the prop \<open>location\<close> (owned by the parent), the four state
  variables, the refs \<open>map.current\<close> (present or null) and \<open>marker.current\<close> (null, or
  a marker with its position), the outstanding positioning calls (oldest first), and
  the trace of effects so far.
\<close>

record picker =
  location :: "Coordinates option"
  mapLoaded :: bool
  mapError :: bool
  isLocating :: bool
  manualFallbackUsed :: bool
  map_current :: bool
  marker_current :: "Coordinates option"
  pending :: "attempt list"
  trace :: "effect list"

definition emit :: "effect \<Rightarrow> picker \<Rightarrow> picker" where
  "emit e s = s\<lparr>trace := trace s @ [e]\<rparr>"

text \<open>The first render: the state variables' initial values, the refs null.\<close>

definition init :: "Coordinates option \<Rightarrow> picker" where
  "init l = \<lparr>location = l, mapLoaded = False, mapError = False, isLocating = False,
     manualFallbackUsed = False, map_current = False, marker_current = None,
     pending = [], trace = []\<rparr>"

text \<open>
  The effect "Initialize Map" (lines 24-132), as far as the state goes: without WebGL
  support, or when the constructor throws, \<open>mapError\<close> is set and \<open>map.current\<close> stays
  null. The container ref is set at the first render (the view with the container is
  the one rendered while \<open>mapError\<close> is false).
\<close>

definition initMap :: "env \<Rightarrow> picker \<Rightarrow> picker" where
  "initMap E s =
     (if map_current s then s
      else if \<not> supported E then s\<lparr>mapError := True\<rparr>
      else if mapCtorThrows E then s\<lparr>mapError := True\<rparr>
      else s\<lparr>map_current := True\<rparr>)"

text \<open>The effect "Update marker when location prop changes" (lines 135-154).\<close>

definition markerEffect :: "picker \<Rightarrow> picker" where
  "markerEffect s =
     (case location s of
        None \<Rightarrow> s
      | Some l \<Rightarrow>
          if map_current s \<and> mapLoaded s then
            (case marker_current s of
               None \<Rightarrow> emit (FlyTo l 16) ((emit (NewMarker l) s)\<lparr>marker_current := Some l\<rparr>)
             | Some m \<Rightarrow> (emit (SetLngLat l) s)\<lparr>marker_current := Some l\<rparr>)
          else s)"

text \<open>Lines 156-158.\<close>

definition handleMapClick :: "real \<Rightarrow> real \<Rightarrow> picker \<Rightarrow> picker" where
  "handleMapClick la lo s = emit (OnLocationSelect \<lparr>lat = la, lng = lo\<rparr>) s"

text \<open>Lines 160-169.\<close>

definition handleManualSelect :: "env \<Rightarrow> picker \<Rightarrow> picker" where
  "handleManualSelect E s =
     (let s1 = s\<lparr>isLocating := False\<rparr>
      in if map_current s1 then emit (FlyTo (MAP_DEFAULT_CENTER E) 11) s1 else s1)"

text \<open>
  Lines 171-219. The call registers the two callbacks and returns; the callbacks run
  later, as \<open>success\<close> and \<open>error\<close> below, with the closure of the registered attempt.
\<close>

definition handleGeolocation :: "env \<Rightarrow> bool \<Rightarrow> bool \<Rightarrow> picker \<Rightarrow> picker" where
  "handleGeolocation E showError enableHighAccuracy s =
     (let s1 = s\<lparr>isLocating := True\<rparr>
      in if \<not> geolocation E then
           (let s2 = (if showError then emit Alert s1 else s1);
                s3 = s2\<lparr>isLocating := False\<rparr>
            in handleManualSelect E s3)
         else
           (emit (GetCurrentPosition enableHighAccuracy
                    (if enableHighAccuracy then 10000 else 20000) 0) s1)
             \<lparr>pending := pending s1 @
                [\<lparr>cl_showError = showError, cl_enableHighAccuracy = enableHighAccuracy\<rparr>]\<rparr>)"

text \<open>The callback \<open>success\<close> (lines 180-194) of the attempt \<open>a\<close>.\<close>

definition success :: "env \<Rightarrow> attempt \<Rightarrow> GeolocationCoordinates \<Rightarrow> picker \<Rightarrow> picker" where
  "success E a coords s =
     (let c = \<lparr>lat = latitude coords, lng = longitude coords\<rparr>;
          s1 = emit (OnLocationSelect c) s;
          s2 = s1\<lparr>isLocating := False\<rparr>;
          s3 = s2\<lparr>manualFallbackUsed := True\<rparr>
      in if map_current s3 then emit (FlyTo c 16) s3 else s3)"

text \<open>The callback \<open>error\<close> (lines 196-212) of the attempt \<open>a\<close>, with \<open>err.code\<close>.\<close>

definition error :: "env \<Rightarrow> attempt \<Rightarrow> nat \<Rightarrow> picker \<Rightarrow> picker" where
  "error E a code s =
     (if cl_enableHighAccuracy a \<and> code = 3 then
        handleGeolocation E (cl_showError a) False s
      else
        (let s1 = (if cl_showError a then emit Alert s else s);
             s2 = s1\<lparr>isLocating := False\<rparr>
         in if map_current s2 then emit (FlyTo (MAP_DEFAULT_CENTER E) 11) s2 else s2))"

text \<open>The mount effect (lines 221-226).\<close>

definition mountEffect :: "env \<Rightarrow> picker \<Rightarrow> picker" where
  "mountEffect E s = (if location s = None then handleGeolocation E False True s else s)"

text \<open>Lines 228-231.\<close>

definition handleFallbackLocation :: "env \<Rightarrow> picker \<Rightarrow> picker" where
  "handleFallbackLocation E s =
     (emit (OnLocationSelect (MAP_DEFAULT_CENTER E)) s)\<lparr>manualFallbackUsed := True\<rparr>"

subsection \<open>The view and the events\<close>

text \<open>
  The five buttons of the two views (lines 233-332): in the degraded view (\<open>mapError\<close>)
  either the "update location" button (when \<open>location && manualFallbackUsed\<close>) or the
  "use current location" and "use default location" buttons; in the map view the GPS
  button and the manual-selection button. Two of them carry \<open>disabled={isLocating}\<close>.
  \<open>clickable\<close> says whether a button is rendered and enabled; \<open>onClick\<close> is its
  handler.
\<close>

datatype button =
  UpdateLocButton | UseCurrentLocButton | UseDefaultLocButton | GpsButton | ManualSelButton

fun clickable :: "picker \<Rightarrow> button \<Rightarrow> bool" where
  "clickable s UpdateLocButton =
     (mapError s \<and> (location s \<noteq> None \<and> manualFallbackUsed s))"
| "clickable s UseCurrentLocButton =
     (mapError s \<and> \<not> (location s \<noteq> None \<and> manualFallbackUsed s) \<and> \<not> isLocating s)"
| "clickable s UseDefaultLocButton =
     (mapError s \<and> \<not> (location s \<noteq> None \<and> manualFallbackUsed s))"
| "clickable s GpsButton = (\<not> mapError s \<and> \<not> isLocating s)"
| "clickable s ManualSelButton = (\<not> mapError s)"

fun onClick :: "env \<Rightarrow> button \<Rightarrow> picker \<Rightarrow> picker" where
  "onClick E UpdateLocButton s = handleGeolocation E True True s"
| "onClick E UseCurrentLocButton s = handleGeolocation E True True s"
| "onClick E UseDefaultLocButton s = handleFallbackLocation E s"
| "onClick E GpsButton s = handleGeolocation E True True s"
| "onClick E ManualSelButton s = handleManualSelect E s"

text \<open>
  What can happen to the component:
  \<^item> \<open>Mount\<close>: the three effects run once, in the order of the source (at the first
    render \<open>mapLoaded\<close> is false, so the marker effect does nothing then);
  \<^item> \<open>MapLoad\<close>: the map fires \<open>load\<close>, the handler sets \<open>mapLoaded\<close>, and the marker
    effect runs again since \<open>mapLoaded\<close> is one of its dependencies;
  \<^item> \<open>MapErrorEvent\<close>: the map fires \<open>error\<close>; the flag says whether the message
    mentions WebGL or "not supported";
  \<^item> \<open>MapClick\<close>: the map fires \<open>click\<close>. The handler is registered on the map
    object, and the map's container is rendered only while \<open>mapError\<close> is false;
  \<^item> \<open>LocationProp\<close>: the parent renders the component with another \<open>location\<close>
    (what the parent does with the coordinate it is given is its own business), and
    the marker effect runs again;
  \<^item> \<open>Click\<close>: a button is pressed; a button that is not rendered, or is disabled,
    cannot be;
  \<^item> \<open>PositionSuccess\<close>, \<open>PositionError\<close>: the platform answers the outstanding call
    at a position of \<open>pending\<close>, once (the call is outstanding no longer), through its
    success callback with a position or through its error callback with a code.
\<close>

datatype event =
    Mount
  | MapLoad
  | MapErrorEvent bool
  | MapClick real real
  | LocationProp "Coordinates option"
  | Click button
  | PositionSuccess nat GeolocationCoordinates
  | PositionError nat nat

definition resolve :: "nat \<Rightarrow> picker \<Rightarrow> picker" where
  "resolve i s = s\<lparr>pending := take i (pending s) @ drop (Suc i) (pending s)\<rparr>"

fun step :: "env \<Rightarrow> picker \<Rightarrow> event \<Rightarrow> picker" where
  "step E s Mount = mountEffect E (markerEffect (initMap E s))"
| "step E s MapLoad = (if map_current s then markerEffect (s\<lparr>mapLoaded := True\<rparr>) else s)"
| "step E s (MapErrorEvent webgl) =
     (if map_current s \<and> webgl then s\<lparr>mapError := True\<rparr> else s)"
| "step E s (MapClick la lo) =
     (if map_current s \<and> \<not> mapError s then handleMapClick la lo s else s)"
| "step E s (LocationProp l) = markerEffect (s\<lparr>location := l\<rparr>)"
| "step E s (Click b) = (if clickable s b then onClick E b s else s)"
| "step E s (PositionSuccess i coords) =
     (if i < length (pending s) then success E (pending s ! i) coords (resolve i s) else s)"
| "step E s (PositionError i code) =
     (if i < length (pending s) then error E (pending s ! i) code (resolve i s) else s)"

definition run :: "env \<Rightarrow> picker \<Rightarrow> event list \<Rightarrow> picker" where
  "run E s evs = foldl (step E) s evs"

text \<open>Readings of a trace: the positioning calls, the coordinates delivered, the alerts.\<close>

fun positioningCalls :: "effect list \<Rightarrow> (bool \<times> nat \<times> nat) list" where
  "positioningCalls [] = []"
| "positioningCalls (GetCurrentPosition h t m # es) = (h, t, m) # positioningCalls es"
| "positioningCalls (e # es) = positioningCalls es"

fun selected :: "effect list \<Rightarrow> Coordinates list" where
  "selected [] = []"
| "selected (OnLocationSelect c # es) = c # selected es"
| "selected (e # es) = selected es"

fun alerts :: "effect list \<Rightarrow> nat" where
  "alerts [] = 0"
| "alerts (Alert # es) = Suc (alerts es)"
| "alerts (e # es) = alerts es"

text \<open>Two platforms and a default centre for the examples.\<close>

definition centre0 :: Coordinates where
  "centre0 = \<lparr>lat = 36.75, lng = 3.06\<rparr>"

definition withGeo :: env where
  "withGeo = \<lparr>geolocation = True, supported = True, mapCtorThrows = False,
     MAP_DEFAULT_CENTER = centre0\<rparr>"

definition noGeo :: env where
  "noGeo = \<lparr>geolocation = False, supported = True, mapCtorThrows = False,
     MAP_DEFAULT_CENTER = centre0\<rparr>"

definition noWebGL :: env where
  "noWebGL = \<lparr>geolocation = True, supported = False, mapCtorThrows = False,
     MAP_DEFAULT_CENTER = centre0\<rparr>"

section \<open>The voice recorder (MediaUploader component)\<close>

text \<open>
  Unlike the map picker's handlers, \<open>stopRecording\<close> reads a state variable,
  \<open>isRecording\<close>. A handler of a function component sees the value the variable had
  in the render that created the handler, so \<open>stopRecording\<close> and \<open>startRecording\<close>
  take that value as their first argument. The interval callback that
  \<open>startRecording\<close> registers calls the \<open>stopRecording\<close> of the same render: the live
  interval is kept together with that render's \<open>isRecording\<close>.

  A blob is its bytes; \<open>new Blob(chunks)\<close> concatenates them.
\<close>

type_synonym blob = "nat list"

text \<open>\<open>MediaRecorder.state\<close>, as far as the component drives it.\<close>

datatype RecordingState = Inactive | Recording

text \<open>
  The calls to the collaborators: \<open>onAudioChange(blob)\<close>, the alert when the microphone
  cannot be opened, and the stopping of the stream's tracks.
\<close>

datatype media_effect = OnAudioChange "blob option" | MicAlert | TracksStopped

record uploader =
  isRecording :: bool
  recordingTime :: nat
  mediaRecorder :: "RecordingState option"
  audioChunks :: "blob list"
  timer :: "bool option"
  calls :: "media_effect list"

definition initUploader :: uploader where
  "initUploader = \<lparr>isRecording = False, recordingTime = 0, mediaRecorder = None,
     audioChunks = [], timer = None, calls = []\<rparr>"

text \<open>\<open>mediaRecorder.ondataavailable\<close> (lines 375-379).\<close>

definition ondataavailable :: "blob \<Rightarrow> uploader \<Rightarrow> uploader" where
  "ondataavailable d u = (if length d > 0 then u\<lparr>audioChunks := audioChunks u @ [d]\<rparr> else u)"

text \<open>\<open>mediaRecorder.onstop\<close> (lines 381-385).\<close>

definition onstop :: "uploader \<Rightarrow> uploader" where
  "onstop u =
     u\<lparr>calls := calls u @ [OnAudioChange (Some (concat (audioChunks u))), TracksStopped]\<rparr>"

text \<open>
  \<open>mediaRecorderRef.current.stop()\<close>: a recording recorder becomes inactive and fires
  \<open>dataavailable\<close> with the data \<open>d\<close> it still holds, then \<open>stop\<close>; an inactive one
  does nothing. The two events are taken together with the call.
\<close>

definition recorder_stop :: "blob \<Rightarrow> uploader \<Rightarrow> uploader" where
  "recorder_stop d u =
     (case mediaRecorder u of
        Some Recording \<Rightarrow> onstop (ondataavailable d (u\<lparr>mediaRecorder := Some Inactive\<rparr>))
      | Some Inactive \<Rightarrow> u
      | None \<Rightarrow> u)"

text \<open>
  \<open>stopRecording\<close> (lines 407-413) of a render in which \<open>isRecording\<close> was
  \<open>isRecording_r\<close>.
\<close>

definition stopRecording :: "bool \<Rightarrow> blob \<Rightarrow> uploader \<Rightarrow> uploader" where
  "stopRecording isRecording_r d u =
     (if mediaRecorder u \<noteq> None \<and> isRecording_r then
        (recorder_stop d u)\<lparr>isRecording := False, timer := None\<rparr>
      else u)"

text \<open>
  \<open>startRecording\<close> (lines 368-405) of a render in which \<open>isRecording\<close> was
  \<open>isRecording_r\<close>; \<open>granted\<close> says whether \<open>getUserMedia\<close> resolved (otherwise the
  \<open>catch\<close> branch alerts). The interval it registers is live until cleared.
\<close>

definition startRecording :: "bool \<Rightarrow> bool \<Rightarrow> uploader \<Rightarrow> uploader" where
  "startRecording isRecording_r granted u =
     (if \<not> granted then u\<lparr>calls := calls u @ [MicAlert]\<rparr>
      else u\<lparr>mediaRecorder := Some Recording, audioChunks := [], isRecording := True,
             recordingTime := 0, timer := Some isRecording_r\<rparr>)"

text \<open>
  One firing of the interval callback (lines 391-399), the updater applied to the
  current \<open>recordingTime\<close>; \<open>d\<close> is the data the recorder would flush if stopped now.
\<close>

definition tick :: "blob \<Rightarrow> uploader \<Rightarrow> uploader" where
  "tick d u =
     (case timer u of
        None \<Rightarrow> u
      | Some isRecording_r \<Rightarrow>
          if recordingTime u \<ge> 30 then (stopRecording isRecording_r d u)\<lparr>recordingTime := 30\<rparr>
          else u\<lparr>recordingTime := recordingTime u + 1\<rparr>)"

text \<open>
  The record button (line 501): \<open>onClick={isRecording ? stopRecording : startRecording}\<close>,
  the handlers of the render on screen.
\<close>

definition recordButton :: "bool \<Rightarrow> blob \<Rightarrow> uploader \<Rightarrow> uploader" where
  "recordButton granted d u =
     (if isRecording u then stopRecording (isRecording u) d u
      else startRecording (isRecording u) granted u)"

datatype media_event = RecordButton bool blob | Tick blob | DataAvailable blob

fun media_step :: "uploader \<Rightarrow> media_event \<Rightarrow> uploader" where
  "media_step u (RecordButton granted d) = recordButton granted d u"
| "media_step u (Tick d) = tick d u"
| "media_step u (DataAvailable d) =
     (if mediaRecorder u = Some Recording then ondataavailable d u else u)"

definition media_run :: "uploader \<Rightarrow> media_event list \<Rightarrow> uploader" where
  "media_run u evs = foldl media_step u evs"

section \<open>Properties of the map picker\<close>

lemma positioningCalls_append:
  "positioningCalls (xs @ ys) = positioningCalls xs @ positioningCalls ys"
  by (induction xs rule: positioningCalls.induct) simp_all

lemma selected_append: "selected (xs @ ys) = selected xs @ selected ys"
  by (induction xs rule: selected.induct) simp_all

lemma alerts_append: "alerts (xs @ ys) = alerts xs + alerts ys"
  by (induction xs rule: alerts.induct) simp_all

lemmas handler_defs = emit_def handleManualSelect_def handleGeolocation_def success_def
  error_def handleMapClick_def handleFallbackLocation_def markerEffect_def resolve_def

subsection \<open>The retry after a timeout\<close>

text \<open>
  Claim C1. When the error callback of an attempt that was started with high accuracy
  runs with error code 3 (the positioning capability being present, as it was when the
  attempt was started), the component issues exactly one further positioning call,
  with high accuracy disabled, and registers it as an attempt whose closure has
  \<open>enableHighAccuracy = false\<close>. Whatever that retry's callback is (an error with any
  code, or a success) and in whatever state it runs, it issues no positioning call:
  there is no second automatic retry.
\<close>

theorem C1_timeout_retried_exactly_once:
  assumes "geolocation E" and "cl_enableHighAccuracy a"
  shows "trace (error E a 3 s) = trace s @ [GetCurrentPosition False 20000 0]
       \<and> pending (error E a 3 s) =
           pending s @ [\<lparr>cl_showError = cl_showError a, cl_enableHighAccuracy = False\<rparr>]
       \<and> positioningCalls (trace (error E
             \<lparr>cl_showError = cl_showError a, cl_enableHighAccuracy = False\<rparr> code s')) =
           positioningCalls (trace s')
       \<and> positioningCalls (trace (success E
             \<lparr>cl_showError = cl_showError a, cl_enableHighAccuracy = False\<rparr> coords s')) =
           positioningCalls (trace s')"
  using assms
  by (simp add: handler_defs Let_def positioningCalls_append)

theorem C1_timeout_retried_exactly_once_witness:
  "geolocation withGeo
   \<and> cl_enableHighAccuracy \<lparr>cl_showError = True, cl_enableHighAccuracy = True\<rparr>
   \<and> trace (error withGeo \<lparr>cl_showError = True, cl_enableHighAccuracy = True\<rparr> 3 (init None))
       = [GetCurrentPosition False 20000 0]
   \<and> positioningCalls (trace (error withGeo \<lparr>cl_showError = True, cl_enableHighAccuracy = False\<rparr> 3
        (error withGeo \<lparr>cl_showError = True, cl_enableHighAccuracy = True\<rparr> 3 (init None))))
       = [(False, 20000, 0)]"
  using C1_timeout_retried_exactly_once [of withGeo
      "\<lparr>cl_showError = True, cl_enableHighAccuracy = True\<rparr>" "init None" 3
      "error withGeo \<lparr>cl_showError = True, cl_enableHighAccuracy = True\<rparr> 3 (init None)"]
  by (simp add: withGeo_def init_def)

subsection \<open>What the Coordinate Consumer receives\<close>

text \<open>
  Claim C3. Each of the three handlers that select a coordinate (the success callback
  of a positioning attempt, a tap on the map, the selection of the static default)
  calls \<open>onLocationSelect\<close> exactly once, with the coordinate of that selection: the
  position the platform reported, the tapped point, the default centre. The argument
  is a coordinate object in each case (the handler builds it or passes the constant),
  never null.
\<close>

theorem C3_onLocationSelect_once_with_the_coordinate:
  "selected (trace (success E a coords s)) =
     selected (trace s) @ [\<lparr>lat = latitude coords, lng = longitude coords\<rparr>]
   \<and> selected (trace (handleMapClick la lo s)) = selected (trace s) @ [\<lparr>lat = la, lng = lo\<rparr>]
   \<and> selected (trace (handleFallbackLocation E s)) = selected (trace s) @ [MAP_DEFAULT_CENTER E]"
  by (simp add: handler_defs Let_def selected_append)

text \<open>No other handler or effect calls \<open>onLocationSelect\<close>.\<close>

lemma selected_handleGeolocation:
  "selected (trace (handleGeolocation E showError h s)) = selected (trace s)"
  by (simp add: handler_defs Let_def selected_append)

lemma selected_error: "selected (trace (error E a code s)) = selected (trace s)"
  by (simp add: handler_defs Let_def selected_append)

lemma selected_handleManualSelect:
  "selected (trace (handleManualSelect E s)) = selected (trace s)"
  by (simp add: handler_defs Let_def selected_append)

lemma selected_markerEffect: "selected (trace (markerEffect s)) = selected (trace s)"
  by (simp add: handler_defs Let_def selected_append split: option.splits)

lemma selected_initMap: "selected (trace (initMap E s)) = selected (trace s)"
  by (simp add: initMap_def)

text \<open>
  Event by event: the consumer is called once on a success callback of an outstanding
  attempt, once on a tap on the displayed map, once on a press of the default button,
  and on nothing else.
\<close>

lemma selected_step:
  "selected (trace (step E s ev)) = selected (trace s) @
     (case ev of
        PositionSuccess i coords \<Rightarrow>
          if i < length (pending s) then [\<lparr>lat = latitude coords, lng = longitude coords\<rparr>] else []
      | MapClick la lo \<Rightarrow> if map_current s \<and> \<not> mapError s then [\<lparr>lat = la, lng = lo\<rparr>] else []
      | Click b \<Rightarrow> if b = UseDefaultLocButton \<and> clickable s b then [MAP_DEFAULT_CENTER E] else []
      | _ \<Rightarrow> [])"
proof (cases ev)
  case (Click b)
  then show ?thesis
    by (cases b) (simp_all add: selected_handleGeolocation selected_handleManualSelect
        handleFallbackLocation_def emit_def selected_append)
next
  case Mount
  then show ?thesis
    by (simp add: mountEffect_def selected_handleGeolocation selected_markerEffect selected_initMap)
next
  case MapLoad
  then show ?thesis by (simp add: selected_markerEffect)
next
  case (LocationProp l)
  then show ?thesis by (simp add: selected_markerEffect)
next
  case (PositionSuccess i coords)
  then show ?thesis by (simp add: success_def Let_def emit_def resolve_def selected_append)
next
  case (PositionError i code)
  then show ?thesis by (simp add: selected_error resolve_def)
qed (simp_all add: handleMapClick_def emit_def selected_append)

subsection \<open>The options of the two attempts\<close>

text \<open>
  Claim C7. With the positioning capability present, \<open>handleGeolocation\<close> with high
  accuracy issues the call \<open>{enableHighAccuracy: true, timeout: 10000, maximumAge: 0}\<close>;
  when that attempt's error callback runs with code 3 the retry is issued as
  \<open>{enableHighAccuracy: false, timeout: 20000, maximumAge: 0}\<close>; when the retry's
  success callback runs with a position, \<open>onLocationSelect\<close> is called once with that
  position's coordinate (and the map, if there is one, flies to it), \<open>isLocating\<close> is
  cleared and no call is left outstanding that was not outstanding before.
\<close>

theorem C7_timeouts_and_retry_success:
  assumes "geolocation E"
  shows "let s1 = handleGeolocation E showError True s;
             i = length (pending s);
             s2 = step E s1 (PositionError i 3);
             s3 = step E s2 (PositionSuccess i coords);
             c = \<lparr>lat = latitude coords, lng = longitude coords\<rparr>
         in trace s1 = trace s @ [GetCurrentPosition True 10000 0]
          \<and> trace s2 = trace s1 @ [GetCurrentPosition False 20000 0]
          \<and> trace s3 = trace s2 @ [OnLocationSelect c] @ (if map_current s then [FlyTo c 16] else [])
          \<and> selected (trace s3) = selected (trace s) @ [c]
          \<and> \<not> isLocating s3 \<and> pending s3 = pending s"
  using assms
  by (simp add: handler_defs Let_def selected_append nth_append)

theorem C7_timeouts_and_retry_success_witness:
  "geolocation withGeo \<and>
   trace (run withGeo (init None)
     [Mount, PositionError 0 3, PositionSuccess 0 \<lparr>latitude = 31.63, longitude = -7.99\<rparr>]) =
     [GetCurrentPosition True 10000 0, GetCurrentPosition False 20000 0,
      OnLocationSelect \<lparr>lat = 31.63, lng = -7.99\<rparr>, FlyTo \<lparr>lat = 31.63, lng = -7.99\<rparr> 16]"
  using C7_timeouts_and_retry_success [of withGeo False "initMap withGeo (init None)"
      "\<lparr>latitude = 31.63, longitude = -7.99\<rparr>"]
  by (simp add: withGeo_def init_def run_def initMap_def mountEffect_def handler_defs Let_def)

lemmas run_defs = run_def init_def initMap_def mountEffect_def handler_defs Let_def

subsection \<open>Late callbacks\<close>

text \<open>
  Claim C2, as stated: the late callback of an attempt that a manual override has
  superseded has no observable effect. The component keeps no identity of its
  attempts and its callbacks check nothing, so the claim fails. A press of the GPS
  button starts an attempt; the user then taps the map at (40, -3.7) and the parent
  passes that coordinate back. When the attempt's error callback arrives afterwards
  with code 1, the user is alerted and the map flies from the tapped point to the
  default centre; had its success callback arrived instead, the consumer would have
  been given the attempt's position after the tapped one.
\<close>

theorem C2_counterexample:
  "pending (run withGeo (init (Some centre0))
      [Mount, MapLoad, Click GpsButton, MapClick 40 (-3.7),
       LocationProp (Some \<lparr>lat = 40, lng = -3.7\<rparr>)])
     = [\<lparr>cl_showError = True, cl_enableHighAccuracy = True\<rparr>]
   \<and> trace (run withGeo (init (Some centre0))
      [Mount, MapLoad, Click GpsButton, MapClick 40 (-3.7),
       LocationProp (Some \<lparr>lat = 40, lng = -3.7\<rparr>), PositionError 0 1])
     = trace (run withGeo (init (Some centre0))
      [Mount, MapLoad, Click GpsButton, MapClick 40 (-3.7),
       LocationProp (Some \<lparr>lat = 40, lng = -3.7\<rparr>)])
       @ [Alert, FlyTo centre0 11]
   \<and> selected (trace (run withGeo (init (Some centre0))
      [Mount, MapLoad, Click GpsButton, MapClick 40 (-3.7),
       LocationProp (Some \<lparr>lat = 40, lng = -3.7\<rparr>),
       PositionSuccess 0 \<lparr>latitude = 31.63, longitude = -7.99\<rparr>]))
     = [\<lparr>lat = 40, lng = -3.7\<rparr>, \<lparr>lat = 31.63, lng = -7.99\<rparr>]"
  by (simp add: withGeo_def run_defs)

text \<open>
  Claim C2, amended. A callback is handled the same whether or not its attempt has been
  superseded. An error callback, late or not, never touches the selection: it does not
  call \<open>onLocationSelect\<close> and it leaves the \<open>location\<close> prop, the marker,
  \<open>manualFallbackUsed\<close>, \<open>mapError\<close> and \<open>mapLoaded\<close> as they were (what it may do is
  clear \<open>isLocating\<close>, alert, re-centre the map, or issue the retry). A success
  callback of any outstanding attempt, late or not, delivers its position to
  \<open>onLocationSelect\<close> once.
\<close>

theorem C2_late_error_keeps_the_selection:
  "selected (trace (step E s (PositionError i code))) = selected (trace s)
   \<and> location (step E s (PositionError i code)) = location s
   \<and> marker_current (step E s (PositionError i code)) = marker_current s
   \<and> manualFallbackUsed (step E s (PositionError i code)) = manualFallbackUsed s
   \<and> mapError (step E s (PositionError i code)) = mapError s
   \<and> mapLoaded (step E s (PositionError i code)) = mapLoaded s
   \<and> selected (trace (step E s (PositionSuccess i coords))) =
       selected (trace s) @
         (if i < length (pending s) then [\<lparr>lat = latitude coords, lng = longitude coords\<rparr>]
          else [])"
  by (simp add: handler_defs Let_def selected_append)

subsection \<open>The positioning capability is absent\<close>

text \<open>
  Claim C4, as stated: without the capability, every trigger is silent. The branch of
  \<open>handleGeolocation\<close> for a missing \<open>navigator.geolocation\<close> alerts when \<open>showError\<close>
  is set, and every button passes \<open>showError = true\<close>: on a platform without the
  capability the mount-time trigger is silent, and a press of the GPS button (enabled
  after it) alerts.
\<close>

theorem C4_counterexample:
  "\<not> geolocation noGeo
   \<and> clickable (run noGeo (init None) [Mount]) GpsButton
   \<and> trace (run noGeo (init None) [Mount, Click GpsButton]) =
       trace (run noGeo (init None) [Mount]) @ [Alert, FlyTo centre0 11]"
  by (simp add: noGeo_def run_defs)

text \<open>
  Claim C4, amended. Without the capability, \<open>handleGeolocation\<close> makes no positioning
  call and leaves \<open>isLocating\<close> false; it alerts exactly when it was called with
  \<open>showError\<close> (so not at mount, and once on a press of a button), and re-centres the
  map, if there is one, on the default centre. The manual-selection button and the
  default button are available afterwards exactly where they were before.
\<close>

theorem C4_capability_absent:
  assumes "\<not> geolocation E"
  shows "trace (handleGeolocation E showError h s) =
           trace s @ (if showError then [Alert] else [])
                   @ (if map_current s then [FlyTo (MAP_DEFAULT_CENTER E) 11] else [])
       \<and> pending (handleGeolocation E showError h s) = pending s
       \<and> \<not> isLocating (handleGeolocation E showError h s)
       \<and> clickable (handleGeolocation E showError h s) ManualSelButton =
           clickable s ManualSelButton
       \<and> clickable (handleGeolocation E showError h s) UseDefaultLocButton =
           clickable s UseDefaultLocButton"
  using assms by (simp add: handler_defs Let_def)

theorem C4_capability_absent_witness:
  "\<not> geolocation noGeo
   \<and> trace (step noGeo (init None) Mount) = [FlyTo centre0 11]
   \<and> \<not> isLocating (step noGeo (init None) Mount)
   \<and> clickable (step noGeo (init None) Mount) ManualSelButton"
  using C4_capability_absent [of noGeo False True "initMap noGeo (init None)"]
  by (simp add: noGeo_def run_defs)

subsection \<open>An error other than a timeout\<close>

text \<open>
  Claim C5, as stated: every attempt that fails with a code other than 3 surfaces one
  failure signal. The error callback alerts only when the attempt was started with
  \<open>showError\<close>, and the mount effect starts its attempt with \<open>showError = false\<close>:
  when that attempt fails with code 1 it is over, without any alert.
\<close>

theorem C5_counterexample:
  "pending (run withGeo (init None) [Mount]) =
     [\<lparr>cl_showError = False, cl_enableHighAccuracy = True\<rparr>]
   \<and> alerts (trace (run withGeo (init None) [Mount, PositionError 0 1])) = 0
   \<and> pending (run withGeo (init None) [Mount, PositionError 0 1]) = []"
  by (simp add: withGeo_def run_defs)

text \<open>
  Claim C5, amended. The error callback with a code other than 3 issues no positioning
  call; it clears \<open>isLocating\<close>, alerts exactly when its attempt was started with
  \<open>showError\<close> (once for an attempt a button started, not at all for the one the mount
  effect started), and re-centres the map, if there is one, on the default centre. The
  manual-selection button and the default button are available afterwards exactly
  where they were before.
\<close>

theorem C5_non_timeout_error:
  assumes "code \<noteq> 3"
  shows "trace (error E a code s) =
           trace s @ (if cl_showError a then [Alert] else [])
                   @ (if map_current s then [FlyTo (MAP_DEFAULT_CENTER E) 11] else [])
       \<and> pending (error E a code s) = pending s
       \<and> \<not> isLocating (error E a code s)
       \<and> clickable (error E a code s) ManualSelButton = clickable s ManualSelButton
       \<and> clickable (error E a code s) UseDefaultLocButton = clickable s UseDefaultLocButton"
  using assms by (simp add: handler_defs Let_def)

theorem C5_non_timeout_error_witness:
  "(1::nat) \<noteq> 3
   \<and> trace (run withGeo (init (Some centre0)) [Mount, Click GpsButton, PositionError 0 1]) =
       [GetCurrentPosition True 10000 0, Alert, FlyTo centre0 11]
   \<and> pending (run withGeo (init (Some centre0)) [Mount, Click GpsButton, PositionError 0 1]) = []"
  using C5_non_timeout_error [of 1 withGeo "\<lparr>cl_showError = True, cl_enableHighAccuracy = True\<rparr>"
      "resolve 0 (run withGeo (init (Some centre0)) [Mount, Click GpsButton])"]
  by (simp add: withGeo_def run_defs)

subsection \<open>Outstanding positioning calls\<close>

text \<open>
  Claim C6. The GPS button and the "use current location" button are disabled while
  \<open>isLocating\<close>; the "update location" button is not, and \<open>handleGeolocation\<close> itself
  does not look for an outstanding call. In the degraded view, after a first success,
  two presses of "update location" leave two calls outstanding. In the map view the
  manual-selection button clears \<open>isLocating\<close> while the mount-time call is
  outstanding, which enables the GPS button again: a press of it leaves two calls
  outstanding as well.
\<close>

theorem C6_two_calls_outstanding:
  "clickable (run noWebGL (init None)
      [Mount, PositionSuccess 0 \<lparr>latitude = 31.63, longitude = -7.99\<rparr>,
       LocationProp (Some \<lparr>lat = 31.63, lng = -7.99\<rparr>), Click UpdateLocButton]) UpdateLocButton
   \<and> pending (run noWebGL (init None)
      [Mount, PositionSuccess 0 \<lparr>latitude = 31.63, longitude = -7.99\<rparr>,
       LocationProp (Some \<lparr>lat = 31.63, lng = -7.99\<rparr>), Click UpdateLocButton,
       Click UpdateLocButton])
     = [\<lparr>cl_showError = True, cl_enableHighAccuracy = True\<rparr>,
        \<lparr>cl_showError = True, cl_enableHighAccuracy = True\<rparr>]
   \<and> pending (run withGeo (init None) [Mount, Click ManualSelButton, Click GpsButton])
     = [\<lparr>cl_showError = False, cl_enableHighAccuracy = True\<rparr>,
        \<lparr>cl_showError = True, cl_enableHighAccuracy = True\<rparr>]"
  by (simp add: withGeo_def noWebGL_def run_defs)

subsection \<open>The static default and a tap\<close>

text \<open>
  Claim C8, as stated: selecting the default differs in nothing from a tap at the
  default coordinate. \<open>handleFallbackLocation\<close> also sets \<open>manualFallbackUsed\<close>, which
  \<open>handleMapClick\<close> never does. No state offers both the default button and a tap on
  the map, so the two are compared on two runs of the same component. In both the map
  is created and loaded and then fires a WebGL error, which brings up the degraded
  view, and in both the parent passes the selected coordinate back. In the first the
  user presses the default button after the error; in the second the user taps the
  map at the default coordinate before it. The collaborators see the same calls in
  both runs, and the consumer is given the default coordinate once. The views differ:
  after the default the degraded view shows the "update location" button, after the
  tap it still shows the "use current location" and "use default location" buttons.
\<close>

theorem C8_counterexample:
  "clickable (run withGeo (init None) [Mount, MapLoad, MapErrorEvent True]) UseDefaultLocButton
   \<and> trace (run withGeo (init None)
        [Mount, MapLoad, MapErrorEvent True, Click UseDefaultLocButton,
         LocationProp (Some \<lparr>lat = 36.75, lng = 3.06\<rparr>)])
     = trace (run withGeo (init None)
        [Mount, MapLoad, MapClick 36.75 3.06, LocationProp (Some \<lparr>lat = 36.75, lng = 3.06\<rparr>),
         MapErrorEvent True])
   \<and> selected (trace (run withGeo (init None)
        [Mount, MapLoad, MapClick 36.75 3.06, LocationProp (Some \<lparr>lat = 36.75, lng = 3.06\<rparr>),
         MapErrorEvent True])) = [MAP_DEFAULT_CENTER withGeo]
   \<and> clickable (run withGeo (init None)
        [Mount, MapLoad, MapErrorEvent True, Click UseDefaultLocButton,
         LocationProp (Some \<lparr>lat = 36.75, lng = 3.06\<rparr>)]) UpdateLocButton
   \<and> \<not> clickable (run withGeo (init None)
        [Mount, MapLoad, MapClick 36.75 3.06, LocationProp (Some \<lparr>lat = 36.75, lng = 3.06\<rparr>),
         MapErrorEvent True]) UpdateLocButton
   \<and> clickable (run withGeo (init None)
        [Mount, MapLoad, MapClick 36.75 3.06, LocationProp (Some \<lparr>lat = 36.75, lng = 3.06\<rparr>),
         MapErrorEvent True]) UseDefaultLocButton"
  by (simp add: withGeo_def centre0_def run_defs)

text \<open>
  Claim C8, amended. The handler of the default button does what the tap handler does
  with the default coordinate, one call of \<open>onLocationSelect\<close> with that coordinate and
  nothing else to the collaborators, and in addition sets \<open>manualFallbackUsed\<close>; that
  flag is the only difference.
\<close>

theorem C8_default_is_tap_plus_flag:
  "handleFallbackLocation E s =
     (handleMapClick (lat (MAP_DEFAULT_CENTER E)) (lng (MAP_DEFAULT_CENTER E)) s)
       \<lparr>manualFallbackUsed := True\<rparr>"
  by (simp add: handler_defs)

text \<open>
  Where the default button can be pressed, a tap on the map cannot happen. On the
  runs that can be compared (a displayed map that then fails), pressing the default
  after the failure leaves the component as the tap at the default coordinate before
  the failure does, but for the flag.
\<close>

lemma default_button_excludes_tap:
  "clickable s UseDefaultLocButton \<Longrightarrow> step E s (MapClick la lo) = s"
  by simp

lemma default_after_map_error_is_tap_before_plus_flag:
  assumes "map_current s" and "\<not> mapError s" and "\<not> manualFallbackUsed s"
  shows "step E (step E s (MapErrorEvent True)) (Click UseDefaultLocButton) =
         (step E (step E s (MapClick (lat (MAP_DEFAULT_CENTER E)) (lng (MAP_DEFAULT_CENTER E))))
            (MapErrorEvent True))\<lparr>manualFallbackUsed := True\<rparr>"
  using assms by (simp add: handler_defs)

subsection \<open>The marker and the centre of the map\<close>

text \<open>
  Claim C9, as stated: every new coordinate, not only the first, both centres the map
  and moves the marker. The marker effect centres the map only in the branch that
  creates the marker. With the map loaded and a marker on it, a tap at (40, -3.7)
  followed by the parent passing the coordinate back moves the marker and does not
  centre the map.
\<close>

theorem C9_counterexample:
  "map_current (run withGeo (init (Some centre0)) [Mount, MapLoad])
   \<and> mapLoaded (run withGeo (init (Some centre0)) [Mount, MapLoad])
   \<and> trace (run withGeo (init (Some centre0))
        [Mount, MapLoad, MapClick 40 (-3.7), LocationProp (Some \<lparr>lat = 40, lng = -3.7\<rparr>)]) =
      trace (run withGeo (init (Some centre0)) [Mount, MapLoad]) @
        [OnLocationSelect \<lparr>lat = 40, lng = -3.7\<rparr>, SetLngLat \<lparr>lat = 40, lng = -3.7\<rparr>]"
  by (simp add: withGeo_def run_defs)

text \<open>
  Claim C9, amended. With the map created and loaded: whenever the parent passes a
  coordinate as the \<open>location\<close> prop the marker ends at that coordinate, created (and
  the map centred on it at zoom 16) when there was none, moved (and the map left where
  it is) otherwise; the success callback of a positioning attempt centres the map on
  its position at zoom 16 itself, every time; a tap and the selection of the default
  do nothing to the map themselves.
\<close>

theorem C9_marker_each_time_centre_first_time_and_on_success:
  assumes "map_current s" and "mapLoaded s"
  shows "marker_current (step E s (LocationProp (Some c))) = Some c
       \<and> trace (step E s (LocationProp (Some c))) =
           trace s @ (if marker_current s = None then [NewMarker c, FlyTo c 16] else [SetLngLat c])
       \<and> trace (success E a coords s) =
           trace s @ [OnLocationSelect \<lparr>lat = latitude coords, lng = longitude coords\<rparr>,
                      FlyTo \<lparr>lat = latitude coords, lng = longitude coords\<rparr> 16]
       \<and> trace (handleMapClick la lo s) = trace s @ [OnLocationSelect \<lparr>lat = la, lng = lo\<rparr>]
       \<and> trace (handleFallbackLocation E s) = trace s @ [OnLocationSelect (MAP_DEFAULT_CENTER E)]"
  using assms by (simp add: handler_defs Let_def split: option.splits)

theorem C9_marker_each_time_centre_first_time_and_on_success_witness:
  "map_current (run withGeo (init None) [Mount, MapLoad])
   \<and> mapLoaded (run withGeo (init None) [Mount, MapLoad])
   \<and> trace (run withGeo (init None) [Mount, MapLoad, LocationProp (Some centre0)]) =
       [GetCurrentPosition True 10000 0, NewMarker centre0, FlyTo centre0 16]
   \<and> marker_current (run withGeo (init None) [Mount, MapLoad, LocationProp (Some centre0)]) =
       Some centre0"
  using C9_marker_each_time_centre_first_time_and_on_success
     [of "run withGeo (init None) [Mount, MapLoad]" withGeo centre0]
  by (simp add: withGeo_def run_defs)

section \<open>Properties of the voice recorder\<close>

lemmas recorder_defs = tick_def stopRecording_def startRecording_def recordButton_def
  recorder_stop_def onstop_def ondataavailable_def

text \<open>The displayed time never exceeds 30, whatever happens.\<close>

lemma recordingTime_step_le:
  "recordingTime u \<le> 30 \<Longrightarrow> recordingTime (media_step u ev) \<le> 30"
  by (cases ev) (simp_all add: recorder_defs split: option.splits RecordingState.splits)

lemma recordingTime_run_le:
  "recordingTime u \<le> 30 \<Longrightarrow> recordingTime (media_run u evs) \<le> 30"
  unfolding media_run_def
  by (induction evs arbitrary: u) (simp_all add: recordingTime_step_le)

lemma recording_time_bounded: "recordingTime (media_run initUploader evs) \<le> 30"
  by (rule recordingTime_run_le) (simp add: initUploader_def)

text \<open>
  A press of the button while recording stops the recorder and hands the chunks, with
  the data flushed at the stop, to \<open>onAudioChange\<close> as one blob, once.
\<close>

lemma manual_stop_delivers_once:
  assumes "mediaRecorder u = Some Recording" and "isRecording u"
  shows "calls (recordButton g d u) =
           calls u @ [OnAudioChange (Some (concat (audioChunks u) @ d)), TracksStopped]
       \<and> mediaRecorder (recordButton g d u) = Some Inactive
       \<and> \<not> isRecording (recordButton g d u) \<and> timer (recordButton g d u) = None"
  using assms by (simp add: recorder_defs)

text \<open>
  An interval registered by a render in which \<open>isRecording\<close> was false only counts: the
  \<open>stopRecording\<close> it calls at 30 fails its own test.
\<close>

lemma tick_stale:
  assumes "timer u = Some False"
  shows "tick d u = u\<lparr>recordingTime := min (Suc (recordingTime u)) 30\<rparr>"
  using assms by (simp add: tick_def stopRecording_def min_def)

lemma ticks_stale:
  assumes "timer u = Some False" and "recordingTime u \<le> 30"
  shows "foldl media_step u (map Tick ds) =
           u\<lparr>recordingTime := min (recordingTime u + length ds) 30\<rparr>"
  using assms
proof (induction ds arbitrary: u)
  case Nil
  then show ?case by simp
next
  case (Cons d ds)
  have t: "timer (tick d u) = Some False"
    using Cons.prems by (simp add: tick_stale)
  have r: "recordingTime (tick d u) \<le> 30"
    using Cons.prems by (simp add: tick_stale)
  show ?case
    using Cons.IH [OF t r] Cons.prems by (simp add: tick_stale min_def)
qed

text \<open>
  No interval is ever registered by a render in which \<open>isRecording\<close> was true: the
  button calls \<open>startRecording\<close> only while \<open>isRecording\<close> is false. So in every state
  the component can reach, a firing of the interval callback neither stops the recorder
  nor calls \<open>onAudioChange\<close>.
\<close>

lemma timer_step_stale: "timer u \<noteq> Some True \<Longrightarrow> timer (media_step u ev) \<noteq> Some True"
  by (cases ev) (auto simp: recorder_defs split: option.splits RecordingState.splits if_splits)

lemma timer_run_stale: "timer u \<noteq> Some True \<Longrightarrow> timer (media_run u evs) \<noteq> Some True"
  unfolding media_run_def
  by (induction evs arbitrary: u) (simp_all add: timer_step_stale)

lemma tick_never_stops_the_recorder:
  "mediaRecorder (tick d (media_run initUploader evs)) = mediaRecorder (media_run initUploader evs)
   \<and> calls (tick d (media_run initUploader evs)) = calls (media_run initUploader evs)"
proof -
  have "timer (media_run initUploader evs) \<noteq> Some True"
    by (rule timer_run_stale) (simp add: initUploader_def)
  then show ?thesis
    by (cases "timer (media_run initUploader evs)") (auto simp: tick_def stopRecording_def)
qed

text \<open>
  Claim C10. The recording is meant to end at 30 seconds: the interval callback calls
  \<open>stopRecording\<close> once the counter has reached 30. The button starts a recording only
  from a render in which \<open>isRecording\<close> is false, and the callback calls that render's
  \<open>stopRecording\<close>, whose test \<open>mediaRecorderRef.current && isRecording\<close> fails. After
  the start and any number of ticks, with no further press, the recorder is still
  recording, the interval is still live, the counter stands at 30 at most and
  \<open>onAudioChange\<close> has not been called.
\<close>

theorem C10_timer_never_stops_the_recorder:
  "media_run initUploader (RecordButton True d0 # map Tick ds) =
     \<lparr>isRecording = True, recordingTime = min (length ds) 30, mediaRecorder = Some Recording,
      audioChunks = [], timer = Some False, calls = []\<rparr>"
proof -
  have s: "recordButton True d0 initUploader =
     \<lparr>isRecording = True, recordingTime = 0, mediaRecorder = Some Recording,
      audioChunks = [], timer = Some False, calls = []\<rparr>"
    by (simp add: recordButton_def startRecording_def initUploader_def)
  show ?thesis
    unfolding media_run_def by (simp add: s ticks_stale)
qed

end
